theory Spec2Isabelle
  imports Complex_Main "HOL-Library.AList" "HOL-Library.Product_Lexorder"
begin

section \<open>The swarm coordinator of \<^verbatim>\<open>exo/autogen/swarm_coordinator.py\<close>\<close>

text \<open>
  The coordinator keeps two dictionaries, \<^verbatim>\<open>nodes\<close> and \<^verbatim>\<open>tasks\<close>, and a governance
  threshold. Its methods mutate the dictionaries in place; here every method takes the
  coordinator and returns its result together with the coordinator afterwards.

  Modelling decisions:
  \<^item> Python floats are read as real numbers: the code only compares them (\<^verbatim>\<open>>=\<close>, and the
    ordering of sort keys), and the descriptors are taken to hold numbers (no NaN).
  \<^item> \<^verbatim>\<open>cpu_cores\<close>, \<^verbatim>\<open>priority\<close> and the counters are Python integers: \<open>int\<close>.
  \<^item> The status fields are plain strings in the source (no enumeration is enforced), so
    they are strings here.
  \<^item> A dictionary is an association list in insertion order, because the code iterates
    the dictionaries and the order of the iteration decides which of several equally
    large nodes is chosen. \<^verbatim>\<open>d[k] = v\<close> is \<open>AList.update\<close> (an existing key keeps its
    place, a new key goes to the end), \<^verbatim>\<open>del d[k]\<close> is \<open>AList.delete\<close>, \<^verbatim>\<open>d.get(k)\<close> is
    \<open>map_of\<close>, \<^verbatim>\<open>d.values()\<close> and \<^verbatim>\<open>d.items()\<close> read the list from left to right. The keys
    of a dictionary are distinct; the operations below keep them so.
  \<^item> The dictionaries hold references to the descriptors. The object stored under a
    key is written to through that key here, which is the same thing as long as no
    descriptor object is stored under two keys; the coordinator never does that itself.
\<close>

subsection \<open>Data model\<close>

record ResourceThreshold =
  min_memory_gb :: real
  min_cpu_cores :: int
  min_gpu_memory_gb :: real
  min_network_bandwidth_mbps :: real

record SwarmNode =
  node_id :: string
  available_memory_gb :: real
  cpu_cores :: int
  gpu_memory_gb :: real
  network_bandwidth_mbps :: real
  status :: string
  capabilities :: "string list"

record LearningTask =
  task_id :: string
  task_type :: string
  priority :: int
  required_resources :: ResourceThreshold
  assigned_nodes :: "string list"
  status :: string

text \<open>
  The dictionary that \<^verbatim>\<open>get_swarm_status\<close> returns has a fixed set of keys, so it is a
  record; \<^verbatim>\<open>model_dump()\<close> of the threshold is the threshold's four fields by name.
\<close>

record SwarmStatus =
  total_nodes :: int
  idle_nodes :: int
  busy_nodes :: int
  learning_nodes :: int
  pending_tasks :: int
  running_tasks :: int
  completed_tasks :: int
  resource_threshold :: ResourceThreshold

record SwarmCoordinator =
  resource_threshold :: ResourceThreshold
  nodes :: "(string \<times> SwarmNode) list"
  tasks :: "(string \<times> LearningTask) list"

text \<open>The defaults of the field declarations.\<close>

definition default_threshold :: ResourceThreshold where
  "default_threshold =
     \<lparr>min_memory_gb = 4, min_cpu_cores = 2, min_gpu_memory_gb = 0,
      min_network_bandwidth_mbps = 10\<rparr>"

definition new_coordinator :: "ResourceThreshold \<Rightarrow> SwarmCoordinator" where
  "new_coordinator threshold = \<lparr>resource_threshold = threshold, nodes = [], tasks = []\<rparr>"

text \<open>
  \<^verbatim>\<open>LearningTask(task_id=.., task_type=.., required_resources=..)\<close> with every other
  field left at its default.
\<close>

definition new_task :: "string \<Rightarrow> string \<Rightarrow> ResourceThreshold \<Rightarrow> LearningTask" where
  "new_task tid ty req =
     \<lparr>task_id = tid, task_type = ty, priority = 0, required_resources = req,
      assigned_nodes = [], status = ''pending''\<rparr>"

subsection \<open>Admission\<close>

definition meets_threshold :: "SwarmCoordinator \<Rightarrow> SwarmNode \<Rightarrow> bool" where
  "meets_threshold self node \<longleftrightarrow>
     available_memory_gb node \<ge> min_memory_gb (resource_threshold self)
     \<and> cpu_cores node \<ge> min_cpu_cores (resource_threshold self)
     \<and> gpu_memory_gb node \<ge> min_gpu_memory_gb (resource_threshold self)
     \<and> network_bandwidth_mbps node \<ge> min_network_bandwidth_mbps (resource_threshold self)"

definition register_node :: "SwarmCoordinator \<Rightarrow> SwarmNode \<Rightarrow> bool \<times> SwarmCoordinator" where
  "register_node self node =
     (if \<not> meets_threshold self node then (False, self)
      else (True, self\<lparr>nodes := AList.update (node_id node) node (nodes self)\<rparr>))"

definition unregister_node :: "SwarmCoordinator \<Rightarrow> string \<Rightarrow> bool \<times> SwarmCoordinator" where
  "unregister_node self nid =
     (if nid \<in> fst ` set (nodes self)
      then (True, self\<lparr>nodes := AList.delete nid (nodes self)\<rparr>)
      else (False, self))"

subsection \<open>Task intake and matching\<close>

definition node_suitable_for_task :: "SwarmNode \<Rightarrow> LearningTask \<Rightarrow> bool" where
  "node_suitable_for_task node task \<longleftrightarrow>
     available_memory_gb node \<ge> min_memory_gb (required_resources task)
     \<and> cpu_cores node \<ge> min_cpu_cores (required_resources task)
     \<and> gpu_memory_gb node \<ge> min_gpu_memory_gb (required_resources task)
     \<and> network_bandwidth_mbps node \<ge> min_network_bandwidth_mbps (required_resources task)"

text \<open>
  The list comprehension over \<^verbatim>\<open>self.nodes.values()\<close>. Each node is kept with the key
  it is stored under, which stands for the identity of the stored object.
\<close>

definition suitable_nodes :: "SwarmCoordinator \<Rightarrow> LearningTask \<Rightarrow> (string \<times> SwarmNode) list" where
  "suitable_nodes self task =
     filter (\<lambda>kn. SwarmNode.status (snd kn) = ''idle'' \<and> node_suitable_for_task (snd kn) task)
       (nodes self)"

text \<open>The key function \<^verbatim>\<open>lambda n: (n.available_memory_gb, n.cpu_cores)\<close>; pairs are
  ordered lexicographically, as Python tuples are.\<close>

definition sort_key_of :: "string \<times> SwarmNode \<Rightarrow> real \<times> int" where
  "sort_key_of kn = (available_memory_gb (snd kn), cpu_cores (snd kn))"

text \<open>
  \<^verbatim>\<open>list.sort(key=f, reverse=True)\<close>: a stable sort into descending order. CPython
  reverses the list, sorts it stably into ascending order and reverses the result, so
  elements with equal keys keep their original order.
\<close>

definition sort_reverse :: "('a \<Rightarrow> 'k::linorder) \<Rightarrow> 'a list \<Rightarrow> 'a list" where
  "sort_reverse f xs = rev (sort_key f (rev xs))"

text \<open>
  The specification's order on candidates, written out: more memory wins, and with equal
  memory more cores win.
\<close>

definition more_spacious :: "SwarmNode \<Rightarrow> SwarmNode \<Rightarrow> bool" where
  "more_spacious a b \<longleftrightarrow>
     available_memory_gb a > available_memory_gb b
     \<or> (available_memory_gb a = available_memory_gb b \<and> cpu_cores a > cpu_cores b)"

definition assign_nodes_to_task :: "SwarmCoordinator \<Rightarrow> string \<Rightarrow> bool \<times> SwarmCoordinator" where
  "assign_nodes_to_task self tid =
     (case map_of (tasks self) tid of
        None \<Rightarrow> (False, self)
      | Some task \<Rightarrow>
          if suitable_nodes self task = [] then (False, self)
          else
            (case hd (sort_reverse sort_key_of (suitable_nodes self task)) of
               (k, assigned_node) \<Rightarrow>
                 (True,
                  self\<lparr>tasks :=
                         AList.update tid
                           (task\<lparr>assigned_nodes := [node_id assigned_node],
                                 LearningTask.status := ''assigned''\<rparr>)
                           (tasks self),
                       nodes :=
                         AList.update k (assigned_node\<lparr>SwarmNode.status := ''busy''\<rparr>)
                           (nodes self)\<rparr>)))"

definition submit_learning_task :: "SwarmCoordinator \<Rightarrow> LearningTask \<Rightarrow> string \<times> SwarmCoordinator" where
  "submit_learning_task self task =
     (let self1 = self\<lparr>tasks := AList.update (task_id task) task (tasks self)\<rparr>
      in (task_id task, snd (assign_nodes_to_task self1 (task_id task))))"

subsection \<open>Governance\<close>

definition set_resource_threshold :: "SwarmCoordinator \<Rightarrow> ResourceThreshold \<Rightarrow> SwarmCoordinator" where
  "set_resource_threshold self threshold =
     (let self1 = self\<lparr>resource_threshold := threshold\<rparr>;
          nodes_to_remove = map fst (filter (\<lambda>kn. \<not> meets_threshold self1 (snd kn)) (nodes self1))
      in fold (\<lambda>nid s. snd (unregister_node s nid)) nodes_to_remove self1)"

subsection \<open>Status snapshot\<close>

text \<open>\<^verbatim>\<open>sum(1 for x in xs if p(x))\<close>.\<close>

definition sum_1_for :: "('a \<Rightarrow> bool) \<Rightarrow> 'a list \<Rightarrow> int" where
  "sum_1_for p xs = sum_list (map (\<lambda>x. 1) (filter p xs))"

definition get_swarm_status :: "SwarmCoordinator \<Rightarrow> SwarmStatus" where
  "get_swarm_status self =
     \<lparr>total_nodes = int (length (nodes self)),
      idle_nodes = sum_1_for (\<lambda>n. SwarmNode.status n = ''idle'') (map snd (nodes self)),
      busy_nodes = sum_1_for (\<lambda>n. SwarmNode.status n = ''busy'') (map snd (nodes self)),
      learning_nodes = sum_1_for (\<lambda>n. SwarmNode.status n = ''learning'') (map snd (nodes self)),
      pending_tasks = sum_1_for (\<lambda>t. LearningTask.status t = ''pending'') (map snd (tasks self)),
      running_tasks = sum_1_for (\<lambda>t. LearningTask.status t = ''running'') (map snd (tasks self)),
      completed_tasks = sum_1_for (\<lambda>t. LearningTask.status t = ''completed'') (map snd (tasks self)),
      SwarmStatus.resource_threshold = SwarmCoordinator.resource_threshold self\<rparr>"

subsection \<open>The continuous learning loop\<close>












subsection \<open>Sequences of public operations\<close>

datatype operation =
    RegisterNode SwarmNode
  | UnregisterNode string
  | SubmitTask LearningTask
  | AssignNodesToTask string
  | SetResourceThreshold ResourceThreshold

fun apply_operation :: "SwarmCoordinator \<Rightarrow> operation \<Rightarrow> SwarmCoordinator" where
  "apply_operation s (RegisterNode n) = snd (register_node s n)"
| "apply_operation s (UnregisterNode nid) = snd (unregister_node s nid)"
| "apply_operation s (SubmitTask t) = snd (submit_learning_task s t)"
| "apply_operation s (AssignNodesToTask tid) = snd (assign_nodes_to_task s tid)"
| "apply_operation s (SetResourceThreshold th) = set_resource_threshold s th"

fun run_operations :: "SwarmCoordinator \<Rightarrow> operation list \<Rightarrow> SwarmCoordinator" where
  "run_operations s [] = s"
| "run_operations s (op # ops) = run_operations (apply_operation s op) ops"

subsection \<open>The booking invariants, in the specification's words\<close>








subsection \<open>The descriptors of the test suite\<close>

definition valid_node :: SwarmNode where
  "valid_node =
     \<lparr>node_id = ''node-1'', available_memory_gb = 16, cpu_cores = 8, gpu_memory_gb = 8,
      network_bandwidth_mbps = 1000, status = ''idle'', capabilities = []\<rparr>"

definition invalid_node :: SwarmNode where
  "invalid_node =
     \<lparr>node_id = ''node-2'', available_memory_gb = 1, cpu_cores = 1, gpu_memory_gb = 0,
      network_bandwidth_mbps = 5, status = ''idle'', capabilities = []\<rparr>"

definition task_1 :: LearningTask where
  "task_1 =
     (new_task ''task-1'' ''training''
        (default_threshold\<lparr>min_memory_gb := 8, min_cpu_cores := 4\<rparr>))\<lparr>priority := 1\<rparr>"

definition test_coordinator :: SwarmCoordinator where
  "test_coordinator = new_coordinator default_threshold"

text \<open>Further descriptors for the examples below.\<close>

definition large_node :: SwarmNode where
  "large_node =
     \<lparr>node_id = ''node-3'', available_memory_gb = 32, cpu_cores = 16, gpu_memory_gb = 0,
      network_bandwidth_mbps = 100, status = ''idle'', capabilities = []\<rparr>"

text \<open>\<open>valid_node\<close> is registered and \<open>task_1\<close> is assigned to it.\<close>

definition booked_coordinator :: SwarmCoordinator where
  "booked_coordinator =
     \<lparr>resource_threshold = default_threshold,
      nodes = [(''node-1'', valid_node\<lparr>SwarmNode.status := ''busy''\<rparr>)],
      tasks = [(''task-1'', task_1\<lparr>assigned_nodes := [''node-1''],
                                   LearningTask.status := ''assigned''\<rparr>)]\<rparr>"

section \<open>Properties\<close>

subsection \<open>Admission control\<close>

lemma map_of_update_same: "map_of (AList.update k v al) k = Some v"
  by (simp add: update_conv')

lemma map_of_update_other: "k' \<noteq> k \<Longrightarrow> map_of (AList.update k v al) k' = map_of al k'"
  by (simp add: update_conv')

text \<open>
  C1. \<open>register_node\<close> answers \<open>True\<close> exactly when each of the node's four capacity
  fields is at least the corresponding field of the coordinator's threshold. When it
  answers \<open>True\<close> the node is stored under its \<open>node_id\<close> (every other key keeps what it
  held, and the task registry and the threshold are untouched); when it answers
  \<open>False\<close> the coordinator is unchanged, so in particular both registries are.
\<close>

theorem register_node_admission:
  "(fst (register_node self node) \<longleftrightarrow>
      available_memory_gb node \<ge> min_memory_gb (resource_threshold self)
      \<and> cpu_cores node \<ge> min_cpu_cores (resource_threshold self)
      \<and> gpu_memory_gb node \<ge> min_gpu_memory_gb (resource_threshold self)
      \<and> network_bandwidth_mbps node \<ge> min_network_bandwidth_mbps (resource_threshold self))
   \<and> (fst (register_node self node) \<longrightarrow>
        map_of (nodes (snd (register_node self node))) (node_id node) = Some node
        \<and> (\<forall>k. k \<noteq> node_id node \<longrightarrow>
              map_of (nodes (snd (register_node self node))) k = map_of (nodes self) k)
        \<and> nodes (snd (register_node self node)) = AList.update (node_id node) node (nodes self)
        \<and> tasks (snd (register_node self node)) = tasks self
        \<and> resource_threshold (snd (register_node self node)) = resource_threshold self)
   \<and> (\<not> fst (register_node self node) \<longrightarrow>
        nodes (snd (register_node self node)) = nodes self
        \<and> tasks (snd (register_node self node)) = tasks self
        \<and> snd (register_node self node) = self)"
  by (simp add: register_node_def meets_threshold_def map_of_update_same map_of_update_other)

lemmas fixture_defs = test_coordinator_def new_coordinator_def default_threshold_def
  valid_node_def invalid_node_def task_1_def new_task_def

text \<open>
  The first two scenarios of the test suite: \<open>valid_node\<close> is admitted under the default
  threshold and becomes the only entry of the registry; \<open>invalid_node\<close> is turned away
  and the registry stays empty.
\<close>

theorem register_node_admission_witness:
  "fst (register_node test_coordinator valid_node)
   \<and> nodes (snd (register_node test_coordinator valid_node)) = [(''node-1'', valid_node)]
   \<and> map_of (nodes (snd (register_node test_coordinator valid_node))) ''node-1'' = Some valid_node
   \<and> \<not> fst (register_node test_coordinator invalid_node)
   \<and> nodes (snd (register_node test_coordinator invalid_node)) = []"
proof -
  have acc: "fst (register_node test_coordinator valid_node)"
    by (simp add: register_node_def meets_threshold_def fixture_defs)
  have rej: "\<not> fst (register_node test_coordinator invalid_node)"
    by (simp add: register_node_def meets_threshold_def fixture_defs)
  have id: "node_id valid_node = ''node-1''" by (simp add: valid_node_def)
  have e: "nodes test_coordinator = []" by (simp add: fixture_defs)
  from register_node_admission [of test_coordinator valid_node] acc id e
  have 1: "nodes (snd (register_node test_coordinator valid_node)) = [(''node-1'', valid_node)]"
       "map_of (nodes (snd (register_node test_coordinator valid_node))) ''node-1'' = Some valid_node"
    by simp_all
  from register_node_admission [of test_coordinator invalid_node] rej e
  have 2: "nodes (snd (register_node test_coordinator invalid_node)) = []"
    by simp
  from acc rej 1 2 show ?thesis by simp
qed

subsection \<open>Unregistration\<close>

lemma map_of_delete_same: "map_of (AList.delete k al) k = None"
  by (simp add: delete_conv')

lemma map_of_delete_other: "k' \<noteq> k \<Longrightarrow> map_of (AList.delete k al) k' = map_of al k'"
  by (simp add: delete_conv')

lemma delete_absent: "k \<notin> fst ` set al \<Longrightarrow> AList.delete k al = al"
  by (simp add: delete_id)

lemma delete_as_filter: "AList.delete k al = filter (\<lambda>kn. fst kn \<noteq> k) al"
  by (induction al) auto

lemma unregister_node_nodes:
  "nodes (snd (unregister_node self nid)) = AList.delete nid (nodes self)"
  by (simp add: unregister_node_def delete_absent)

lemma unregister_node_tasks: "tasks (snd (unregister_node self nid)) = tasks self"
  by (simp add: unregister_node_def)

lemma unregister_node_threshold:
  "resource_threshold (snd (unregister_node self nid)) = resource_threshold self"
  by (simp add: unregister_node_def)

text \<open>
  C8. \<open>unregister_node\<close> answers \<open>True\<close> exactly when the ID was a key of the node
  registry. Afterwards the ID is not a key, every other key holds what it held, and the
  task registry and the threshold are the same as before, so a task that names the
  removed node in its \<open>assigned_nodes\<close> keeps both that list and its status. On an ID
  that was not registered the coordinator is unchanged.
\<close>

theorem unregister_node_result:
  "(fst (unregister_node self nid) \<longleftrightarrow> nid \<in> fst ` set (nodes self))
   \<and> (fst (unregister_node self nid) \<longleftrightarrow> map_of (nodes self) nid \<noteq> None)
   \<and> map_of (nodes (snd (unregister_node self nid))) nid = None
   \<and> nid \<notin> fst ` set (nodes (snd (unregister_node self nid)))
   \<and> (\<forall>k. k \<noteq> nid \<longrightarrow>
         map_of (nodes (snd (unregister_node self nid))) k = map_of (nodes self) k)
   \<and> nodes (snd (unregister_node self nid)) = filter (\<lambda>kn. fst kn \<noteq> nid) (nodes self)
   \<and> tasks (snd (unregister_node self nid)) = tasks self
   \<and> resource_threshold (snd (unregister_node self nid)) = resource_threshold self
   \<and> (\<not> fst (unregister_node self nid) \<longrightarrow> snd (unregister_node self nid) = self)"
proof -
  have "fst (unregister_node self nid) \<longleftrightarrow> nid \<in> fst ` set (nodes self)"
    by (simp add: unregister_node_def)
  moreover have "(nid \<in> fst ` set (nodes self)) \<longleftrightarrow> map_of (nodes self) nid \<noteq> None"
    by (simp add: map_of_eq_None_iff)
  moreover have "nid \<notin> fst ` set (AList.delete nid (nodes self))"
    by (auto simp: delete_as_filter)
  moreover have "\<not> fst (unregister_node self nid) \<longrightarrow> snd (unregister_node self nid) = self"
    by (simp add: unregister_node_def)
  ultimately show ?thesis
    by (simp add: unregister_node_nodes unregister_node_tasks unregister_node_threshold
        map_of_delete_same map_of_delete_other delete_as_filter [symmetric])
qed

text \<open>Removing the registered \<open>node-1\<close> empties the registry; removing the unknown
  \<open>node-2\<close> changes nothing.\<close>

theorem unregister_node_result_witness:
  "fst (unregister_node (snd (register_node test_coordinator valid_node)) ''node-1'')
   \<and> nodes (snd (unregister_node (snd (register_node test_coordinator valid_node)) ''node-1'')) = []
   \<and> \<not> fst (unregister_node (snd (register_node test_coordinator valid_node)) ''node-2'')
   \<and> snd (unregister_node (snd (register_node test_coordinator valid_node)) ''node-2'')
       = snd (register_node test_coordinator valid_node)
   \<and> map_of (nodes (snd (unregister_node (snd (register_node test_coordinator valid_node)) ''node-2''))) ''node-1''
       = Some valid_node"
proof -
  have s: "snd (register_node test_coordinator valid_node)
             = test_coordinator\<lparr>nodes := [(''node-1'', valid_node)]\<rparr>"
    by (simp add: register_node_def meets_threshold_def fixture_defs)
  have ne: "''node-1'' \<noteq> ''node-2''" by simp
  show ?thesis
    using unregister_node_result [of "snd (register_node test_coordinator valid_node)" "''node-1''"]
      unregister_node_result [of "snd (register_node test_coordinator valid_node)" "''node-2''"] ne
    unfolding s by simp
qed

subsection \<open>The matching algorithm\<close>

text \<open>What \<open>sort_reverse\<close> puts first: an element with the largest key, and among the
  elements with that key the one that came first in the input.\<close>

lemma set_sort_reverse: "set (sort_reverse f xs) = set xs"
  by (simp add: sort_reverse_def)

lemma sort_reverse_eq_Nil: "sort_reverse f xs = [] \<longleftrightarrow> xs = []"
  by (metis set_sort_reverse set_empty)

lemma sort_reverse_stable:
  "filter (\<lambda>y. f y = k) (sort_reverse f xs) = filter (\<lambda>y. f y = k) xs"
  by (simp add: sort_reverse_def sort_key_stable flip: rev_filter)

lemma sort_reverse_descending: "sorted (rev (map f (sort_reverse f xs)))"
  by (simp add: sort_reverse_def rev_map)

lemma hd_descending_greatest:
  assumes "sorted (rev (map f ys))" and "y \<in> set ys"
  shows "f y \<le> f (hd ys)"
proof (cases ys)
  case Nil
  with assms show ?thesis by simp
next
  case (Cons a as)
  with assms show ?thesis
    by (auto simp: sorted_append)
qed

lemma hd_sort_reverse_in: "xs \<noteq> [] \<Longrightarrow> hd (sort_reverse f xs) \<in> set xs"
  by (metis hd_in_set set_sort_reverse sort_reverse_eq_Nil)

lemma hd_sort_reverse_greatest: "x \<in> set xs \<Longrightarrow> f x \<le> f (hd (sort_reverse f xs))"
  by (rule hd_descending_greatest [OF sort_reverse_descending]) (simp add: set_sort_reverse)

lemma hd_filter_hd: "ys \<noteq> [] \<Longrightarrow> P (hd ys) \<Longrightarrow> hd (filter P ys) = hd ys"
  by (cases ys) auto

lemma hd_sort_reverse_first:
  assumes "xs \<noteq> []"
  shows "hd (sort_reverse f xs) = hd (filter (\<lambda>y. f y = f (hd (sort_reverse f xs))) xs)"
proof -
  have "sort_reverse f xs \<noteq> []" using assms by (simp add: sort_reverse_eq_Nil)
  then have "hd (filter (\<lambda>y. f y = f (hd (sort_reverse f xs))) (sort_reverse f xs))
               = hd (sort_reverse f xs)"
    by (rule hd_filter_hd) simp
  then show ?thesis by (simp add: sort_reverse_stable)
qed

lemma sort_key_of_le:
  "sort_key_of a \<le> sort_key_of b \<longleftrightarrow> \<not> more_spacious (snd a) (snd b)"
  by (auto simp: sort_key_of_def more_spacious_def)

text \<open>
  C6. \<open>assign_nodes_to_task\<close> answers \<open>False\<close> in exactly two cases: the task ID is
  not a key of the task registry, or the task is there and no registered node is idle
  and large enough for it. Whenever it answers \<open>False\<close> the coordinator (both registries
  and the threshold) is what it was; in the second case the stored task is therefore the
  same as before, so a pending task with no assigned nodes stays pending with none.
\<close>

theorem assign_nodes_to_task_failure:
  "(\<not> fst (assign_nodes_to_task self tid) \<longleftrightarrow>
      map_of (tasks self) tid = None
      \<or> (\<exists>task. map_of (tasks self) tid = Some task \<and> suitable_nodes self task = []))
   \<and> (\<not> fst (assign_nodes_to_task self tid) \<longrightarrow> snd (assign_nodes_to_task self tid) = self)
   \<and> (map_of (tasks self) tid = None \<longrightarrow> assign_nodes_to_task self tid = (False, self))
   \<and> (\<forall>task. map_of (tasks self) tid = Some task \<and> suitable_nodes self task = [] \<longrightarrow>
         assign_nodes_to_task self tid = (False, self)
         \<and> map_of (tasks (snd (assign_nodes_to_task self tid))) tid = Some task)"
  by (auto simp: assign_nodes_to_task_def split: option.splits prod.splits)

text \<open>
  The fourth scenario of the specification: with \<open>node-1\<close> busy and no other node, a
  second task with the same requirements finds no candidate and stays pending; an
  unknown task ID is answered \<open>False\<close> as well.
\<close>

theorem assign_nodes_to_task_failure_witness:
  "assign_nodes_to_task
      (booked_coordinator\<lparr>tasks := tasks booked_coordinator @ [(''task-2'', task_1\<lparr>task_id := ''task-2''\<rparr>)]\<rparr>)
      ''task-2''
     = (False, booked_coordinator\<lparr>tasks := tasks booked_coordinator @ [(''task-2'', task_1\<lparr>task_id := ''task-2''\<rparr>)]\<rparr>)
   \<and> assign_nodes_to_task booked_coordinator ''task-9'' = (False, booked_coordinator)"
proof -
  let ?s = "booked_coordinator\<lparr>tasks := tasks booked_coordinator @ [(''task-2'', task_1\<lparr>task_id := ''task-2''\<rparr>)]\<rparr>"
  have 1: "map_of (tasks ?s) ''task-2'' = Some (task_1\<lparr>task_id := ''task-2''\<rparr>)"
    by (simp add: booked_coordinator_def)
  have 2: "suitable_nodes ?s (task_1\<lparr>task_id := ''task-2''\<rparr>) = []"
    by (simp add: suitable_nodes_def booked_coordinator_def)
  have 3: "map_of (tasks booked_coordinator) ''task-9'' = None"
    by (simp add: booked_coordinator_def)
  from assign_nodes_to_task_failure [of ?s "''task-2''"] 1 2
  have "assign_nodes_to_task ?s ''task-2'' = (False, ?s)" by blast
  moreover from assign_nodes_to_task_failure [of booked_coordinator "''task-9''"] 3
  have "assign_nodes_to_task booked_coordinator ''task-9'' = (False, booked_coordinator)" by blast
  ultimately show ?thesis by simp
qed

lemma assign_nodes_to_task_chosen:
  assumes "map_of (tasks self) tid = Some task" and "suitable_nodes self task \<noteq> []"
    and "hd (sort_reverse sort_key_of (suitable_nodes self task)) = (k, n)"
  shows "assign_nodes_to_task self tid =
           (True,
            self\<lparr>tasks := AList.update tid
                              (task\<lparr>assigned_nodes := [node_id n],
                                    LearningTask.status := ''assigned''\<rparr>) (tasks self),
                  nodes := AList.update k (n\<lparr>SwarmNode.status := ''busy''\<rparr>) (nodes self)\<rparr>)"
  using assms by (simp add: assign_nodes_to_task_def)

lemma chosen_is_candidate:
  assumes "suitable_nodes self task \<noteq> []"
    and "hd (sort_reverse sort_key_of (suitable_nodes self task)) = (k, n)"
  shows "(k, n) \<in> set (nodes self)" and "SwarmNode.status n = ''idle''"
    and "node_suitable_for_task n task"
proof -
  from assms have "(k, n) \<in> set (suitable_nodes self task)"
    using hd_sort_reverse_in [of "suitable_nodes self task" sort_key_of] by simp
  then show "(k, n) \<in> set (nodes self)" and "SwarmNode.status n = ''idle''"
    and "node_suitable_for_task n task"
    by (simp_all add: suitable_nodes_def)
qed

text \<open>
  C2, as the code has it. When the task is stored and at least one registered node is
  idle and satisfies its \<open>required_resources\<close>, \<open>assign_nodes_to_task\<close> answers \<open>True\<close>.
  The node it picks is a candidate than which no candidate is more spacious (memory
  first, then cores), and of the equally spacious candidates it is the first in
  registry order. That node's status becomes \<open>busy\<close>, the task's status becomes
  \<open>assigned\<close>, and the task's \<open>assigned_nodes\<close> becomes the one-element list of the node's
  ID: the list is replaced, not extended. Nothing else changes.
\<close>

theorem assign_nodes_to_task_success:
  assumes "map_of (tasks self) tid = Some task" and "suitable_nodes self task \<noteq> []"
  shows "\<exists>k n.
           (k, n) \<in> set (nodes self)
           \<and> SwarmNode.status n = ''idle'' \<and> node_suitable_for_task n task
           \<and> (\<forall>c \<in> set (suitable_nodes self task). \<not> more_spacious (snd c) n)
           \<and> (k, n) = hd (filter (\<lambda>c. \<not> more_spacious n (snd c)) (suitable_nodes self task))
           \<and> assign_nodes_to_task self tid =
                 (True,
                  self\<lparr>tasks := AList.update tid
                                    (task\<lparr>assigned_nodes := [node_id n],
                                          LearningTask.status := ''assigned''\<rparr>) (tasks self),
                        nodes := AList.update k (n\<lparr>SwarmNode.status := ''busy''\<rparr>) (nodes self)\<rparr>)"
proof -
  let ?cs = "suitable_nodes self task"
  obtain k n where kn: "hd (sort_reverse sort_key_of ?cs) = (k, n)"
    by (cases "hd (sort_reverse sort_key_of ?cs)")
  have greatest: "\<forall>c \<in> set ?cs. \<not> more_spacious (snd c) n"
  proof
    fix c assume "c \<in> set ?cs"
    then have "sort_key_of c \<le> sort_key_of (k, n)"
      using hd_sort_reverse_greatest [of c ?cs sort_key_of] kn by simp
    then show "\<not> more_spacious (snd c) n" by (simp add: sort_key_of_le)
  qed
  have "(k, n) = hd (filter (\<lambda>c. sort_key_of c = sort_key_of (k, n)) ?cs)"
    using hd_sort_reverse_first [OF assms(2), of sort_key_of] kn by simp
  moreover have "filter (\<lambda>c. sort_key_of c = sort_key_of (k, n)) ?cs
                   = filter (\<lambda>c. \<not> more_spacious n (snd c)) ?cs"
  proof (rule filter_cong [OF refl])
    fix c assume "c \<in> set ?cs"
    with greatest have "sort_key_of c \<le> sort_key_of (k, n)" by (simp add: sort_key_of_le)
    then show "(sort_key_of c = sort_key_of (k, n)) = (\<not> more_spacious n (snd c))"
      using sort_key_of_le [of "(k, n)" c] by auto
  qed
  ultimately have first: "(k, n) = hd (filter (\<lambda>c. \<not> more_spacious n (snd c)) ?cs)" by simp
  from chosen_is_candidate [OF assms(2) kn] greatest first
    assign_nodes_to_task_chosen [OF assms kn]
  show ?thesis by blast
qed

lemmas operation_defs = register_node_def unregister_node_def submit_learning_task_def
  assign_nodes_to_task_def set_resource_threshold_def meets_threshold_def
  suitable_nodes_def node_suitable_for_task_def sort_reverse_def sort_key_of_def

text \<open>
  With \<open>node-1\<close> (16 GB, 8 cores) and \<open>node-3\<close> (32 GB, 16 cores) both idle and large
  enough, \<open>task-1\<close> goes to \<open>node-3\<close>.
\<close>

theorem assign_nodes_to_task_success_witness:
  "assign_nodes_to_task
     (test_coordinator\<lparr>nodes := [(''node-1'', valid_node), (''node-3'', large_node)],
                        tasks := [(''task-1'', task_1)]\<rparr>) ''task-1''
   = (True,
      test_coordinator
        \<lparr>nodes := [(''node-1'', valid_node),
                   (''node-3'', large_node\<lparr>SwarmNode.status := ''busy''\<rparr>)],
         tasks := [(''task-1'', task_1\<lparr>assigned_nodes := [''node-3''],
                                      LearningTask.status := ''assigned''\<rparr>)]\<rparr>)"
proof -
  let ?s = "test_coordinator\<lparr>nodes := [(''node-1'', valid_node), (''node-3'', large_node)],
                             tasks := [(''task-1'', task_1)]\<rparr>"
  have t: "map_of (tasks ?s) ''task-1'' = Some task_1" by simp
  have c: "suitable_nodes ?s task_1 = [(''node-1'', valid_node), (''node-3'', large_node)]"
    by (simp add: suitable_nodes_def node_suitable_for_task_def fixture_defs large_node_def)
  then have ne: "suitable_nodes ?s task_1 \<noteq> []" by simp
  have ms: "more_spacious large_node valid_node"
    by (simp add: more_spacious_def large_node_def valid_node_def)
  from assign_nodes_to_task_success [OF t ne] obtain k n where
    mem: "(k, n) \<in> set (nodes ?s)"
    and top: "\<forall>c \<in> set (suitable_nodes ?s task_1). \<not> more_spacious (snd c) n"
    and res: "assign_nodes_to_task ?s ''task-1'' =
                (True, ?s\<lparr>tasks := AList.update ''task-1''
                                      (task_1\<lparr>assigned_nodes := [node_id n],
                                             LearningTask.status := ''assigned''\<rparr>) (tasks ?s),
                           nodes := AList.update k (n\<lparr>SwarmNode.status := ''busy''\<rparr>) (nodes ?s)\<rparr>)"
    by blast
  from top c have "\<not> more_spacious large_node n" by simp
  with ms have "n \<noteq> valid_node" by auto
  with mem have kn: "k = ''node-3''" "n = large_node" by auto
  have "node_id large_node = ''node-3''" by (simp add: large_node_def)
  with res kn show ?thesis by simp
qed

text \<open>
  The claim as written has the chosen ID appended to \<open>assigned_nodes\<close>. After
  \<open>valid_node\<close> is registered, \<open>task_1\<close> submitted and \<open>large_node\<close> registered, the task
  holds \<open>[node-1]\<close> and \<open>node-3\<close> is a candidate for it. Assigning again leaves
  \<open>[node-3]\<close>, not \<open>[node-1, node-3]\<close>.
\<close>

theorem assign_nodes_to_task_appends_counterexample:
  "run_operations test_coordinator
      [RegisterNode valid_node, SubmitTask task_1, RegisterNode large_node]
     = booked_coordinator\<lparr>nodes := nodes booked_coordinator @ [(''node-3'', large_node)]\<rparr>
   \<and> map_of (tasks (booked_coordinator\<lparr>nodes := nodes booked_coordinator @ [(''node-3'', large_node)]\<rparr>))
         ''task-1''
       = Some (task_1\<lparr>assigned_nodes := [''node-1''], LearningTask.status := ''assigned''\<rparr>)
   \<and> suitable_nodes (booked_coordinator\<lparr>nodes := nodes booked_coordinator @ [(''node-3'', large_node)]\<rparr>)
         (task_1\<lparr>assigned_nodes := [''node-1''], LearningTask.status := ''assigned''\<rparr>)
       = [(''node-3'', large_node)]
   \<and> map_of (tasks (snd (assign_nodes_to_task
         (booked_coordinator\<lparr>nodes := nodes booked_coordinator @ [(''node-3'', large_node)]\<rparr>)
         ''task-1''))) ''task-1''
       = Some (task_1\<lparr>assigned_nodes := [''node-3''], LearningTask.status := ''assigned''\<rparr>)
   \<and> [''node-3''] \<noteq> [''node-1''] @ [''node-3'']"
  by (simp add: operation_defs fixture_defs large_node_def booked_coordinator_def)

subsection \<open>Changing the governance threshold\<close>

lemma fold_unregister_node:
  "nodes (fold (\<lambda>nid s. snd (unregister_node s nid)) ks s)
     = filter (\<lambda>kn. fst kn \<notin> set ks) (nodes s)
   \<and> tasks (fold (\<lambda>nid s. snd (unregister_node s nid)) ks s) = tasks s
   \<and> resource_threshold (fold (\<lambda>nid s. snd (unregister_node s nid)) ks s)
       = resource_threshold s"
proof (induction ks arbitrary: s)
  case Nil
  show ?case by simp
next
  case (Cons k ks)
  then show ?case
    by (simp add: unregister_node_nodes unregister_node_tasks unregister_node_threshold
        delete_as_filter conj_commute)
qed

lemma set_resource_threshold_nodes:
  "nodes (set_resource_threshold self t2)
     = filter (\<lambda>kn. fst kn \<notin> fst ` {kn' \<in> set (nodes self).
                        \<not> meets_threshold (self\<lparr>resource_threshold := t2\<rparr>) (snd kn')})
         (nodes self)"
  by (simp add: set_resource_threshold_def Let_def fold_unregister_node)

lemma set_resource_threshold_tasks: "tasks (set_resource_threshold self t2) = tasks self"
  by (simp add: set_resource_threshold_def Let_def fold_unregister_node)

lemma set_resource_threshold_threshold:
  "resource_threshold (set_resource_threshold self t2) = t2"
  by (simp add: set_resource_threshold_def Let_def fold_unregister_node)

lemma meets_threshold_cong:
  "resource_threshold s = resource_threshold s' \<Longrightarrow> meets_threshold s n = meets_threshold s' n"
  by (simp add: meets_threshold_def)

lemma set_resource_threshold_survivors:
  assumes "kn \<in> set (nodes (set_resource_threshold self t2))"
  shows "kn \<in> set (nodes self)" and "meets_threshold (set_resource_threshold self t2) (snd kn)"
proof -
  from assms show in_old: "kn \<in> set (nodes self)"
    by (simp add: set_resource_threshold_nodes)
  from assms in_old have "meets_threshold (self\<lparr>resource_threshold := t2\<rparr>) (snd kn)"
    by (auto simp: set_resource_threshold_nodes)
  then show "meets_threshold (set_resource_threshold self t2) (snd kn)"
    by (simp add: meets_threshold_def set_resource_threshold_threshold)
qed

lemma filter_failing_keys:
  assumes "distinct (map fst xs)"
  shows "filter (\<lambda>kv. fst kv \<notin> fst ` {kv' \<in> set xs. \<not> P kv'}) xs = filter P xs"
proof (rule filter_cong [OF refl])
  fix kv assume kv: "kv \<in> set xs"
  have same: "kv' = kv" if "kv' \<in> set xs" and "fst kv' = fst kv" for kv'
  proof -
    from that(1) have "(fst kv', snd kv') \<in> set xs" by simp
    with that(2) have "(fst kv, snd kv') \<in> set xs" by simp
    moreover from kv have "(fst kv, snd kv) \<in> set xs" by simp
    ultimately have "(fst kv, snd kv') \<in> set xs" and "(fst kv, snd kv) \<in> set xs" .
    with assms have "snd kv' = snd kv" by (rule eq_key_imp_eq_value)
    with that(2) show ?thesis by (simp add: prod_eq_iff)
  qed
  show "(fst kv \<notin> fst ` {kv' \<in> set xs. \<not> P kv'}) = P kv"
  proof
    assume "fst kv \<notin> fst ` {kv' \<in> set xs. \<not> P kv'}"
    with kv show "P kv" by blast
  next
    assume ok: "P kv"
    show "fst kv \<notin> fst ` {kv' \<in> set xs. \<not> P kv'}"
    proof
      assume "fst kv \<in> fst ` {kv' \<in> set xs. \<not> P kv'}"
      then obtain kv' where "kv' \<in> set xs" and "\<not> P kv'" and "fst kv' = fst kv"
        by (auto simp: image_iff)
      with same [of kv'] ok show False by simp
    qed
  qed
qed

lemma set_resource_threshold_distinct:
  assumes "distinct (map fst (nodes self))"
  shows "nodes (set_resource_threshold self t2)
           = filter (\<lambda>kn. meets_threshold (self\<lparr>resource_threshold := t2\<rparr>) (snd kn)) (nodes self)"
  unfolding set_resource_threshold_nodes using assms by (rule filter_failing_keys)

text \<open>
  C3. After \<open>set_resource_threshold self t2\<close> the threshold is \<open>t2\<close>, and every node left in
  the registry passes the admission check against it: each of its four capacity fields
  is at least the corresponding field of \<open>t2\<close>. So no registered node violates \<open>t2\<close>.
  The failing nodes are taken out by \<open>unregister_node\<close>, called once for each of their
  keys, which only deletes registry entries: the entries left were entries before, the
  entries that pass are all kept and in the same order (the keys of a dictionary being
  distinct), and the task registry is the same as before.
\<close>

theorem set_resource_threshold_evicts:
  "resource_threshold (set_resource_threshold self t2) = t2
   \<and> (\<forall>kn \<in> set (nodes (set_resource_threshold self t2)).
         available_memory_gb (snd kn) \<ge> min_memory_gb t2
         \<and> cpu_cores (snd kn) \<ge> min_cpu_cores t2
         \<and> gpu_memory_gb (snd kn) \<ge> min_gpu_memory_gb t2
         \<and> network_bandwidth_mbps (snd kn) \<ge> min_network_bandwidth_mbps t2
         \<and> meets_threshold (set_resource_threshold self t2) (snd kn)
         \<and> kn \<in> set (nodes self))
   \<and> set_resource_threshold self t2
       = fold (\<lambda>nid s. snd (unregister_node s nid))
           (map fst (filter (\<lambda>kn. \<not> meets_threshold (self\<lparr>resource_threshold := t2\<rparr>) (snd kn))
                       (nodes self)))
           (self\<lparr>resource_threshold := t2\<rparr>)
   \<and> (distinct (map fst (nodes self)) \<longrightarrow>
        nodes (set_resource_threshold self t2)
          = filter (\<lambda>kn. meets_threshold (self\<lparr>resource_threshold := t2\<rparr>) (snd kn)) (nodes self))
   \<and> tasks (set_resource_threshold self t2) = tasks self"
proof -
  have survivors: "\<forall>kn \<in> set (nodes (set_resource_threshold self t2)).
          available_memory_gb (snd kn) \<ge> min_memory_gb t2
          \<and> cpu_cores (snd kn) \<ge> min_cpu_cores t2
          \<and> gpu_memory_gb (snd kn) \<ge> min_gpu_memory_gb t2
          \<and> network_bandwidth_mbps (snd kn) \<ge> min_network_bandwidth_mbps t2
          \<and> meets_threshold (set_resource_threshold self t2) (snd kn)
          \<and> kn \<in> set (nodes self)"
  proof
    fix kn assume kn: "kn \<in> set (nodes (set_resource_threshold self t2))"
    from set_resource_threshold_survivors [OF kn]
    show "available_memory_gb (snd kn) \<ge> min_memory_gb t2
          \<and> cpu_cores (snd kn) \<ge> min_cpu_cores t2
          \<and> gpu_memory_gb (snd kn) \<ge> min_gpu_memory_gb t2
          \<and> network_bandwidth_mbps (snd kn) \<ge> min_network_bandwidth_mbps t2
          \<and> meets_threshold (set_resource_threshold self t2) (snd kn)
          \<and> kn \<in> set (nodes self)"
      by (simp add: meets_threshold_def set_resource_threshold_threshold)
  qed
  have path: "set_resource_threshold self t2
       = fold (\<lambda>nid s. snd (unregister_node s nid))
           (map fst (filter (\<lambda>kn. \<not> meets_threshold (self\<lparr>resource_threshold := t2\<rparr>) (snd kn))
                       (nodes self)))
           (self\<lparr>resource_threshold := t2\<rparr>)"
    by (simp add: set_resource_threshold_def Let_def)
  have kept: "distinct (map fst (nodes self)) \<longrightarrow>
        nodes (set_resource_threshold self t2)
          = filter (\<lambda>kn. meets_threshold (self\<lparr>resource_threshold := t2\<rparr>) (snd kn)) (nodes self)"
    by (rule impI) (rule set_resource_threshold_distinct)
  from set_resource_threshold_threshold [of self t2] survivors path kept
    set_resource_threshold_tasks [of self t2]
  show ?thesis by (intro conjI)
qed

text \<open>
  The fifth scenario of the specification and the last test of the suite: raising the
  threshold to 32 GB and 16 cores evicts \<open>node-1\<close> (16 GB, 8 cores) and keeps \<open>node-3\<close>
  (32 GB, 16 cores); the task that was assigned to \<open>node-1\<close> is not touched.
\<close>

theorem set_resource_threshold_evicts_witness:
  "nodes (set_resource_threshold
            (booked_coordinator\<lparr>nodes := nodes booked_coordinator @ [(''node-3'', large_node)]\<rparr>)
            (default_threshold\<lparr>min_memory_gb := 32, min_cpu_cores := 16\<rparr>))
     = [(''node-3'', large_node)]
   \<and> tasks (set_resource_threshold
            (booked_coordinator\<lparr>nodes := nodes booked_coordinator @ [(''node-3'', large_node)]\<rparr>)
            (default_threshold\<lparr>min_memory_gb := 32, min_cpu_cores := 16\<rparr>))
     = [(''task-1'', task_1\<lparr>assigned_nodes := [''node-1''], LearningTask.status := ''assigned''\<rparr>)]"
proof -
  let ?s = "booked_coordinator\<lparr>nodes := nodes booked_coordinator @ [(''node-3'', large_node)]\<rparr>"
  let ?t = "default_threshold\<lparr>min_memory_gb := 32, min_cpu_cores := 16\<rparr>"
  have d: "distinct (map fst (nodes ?s))" by (simp add: booked_coordinator_def)
  have f: "filter (\<lambda>kn. meets_threshold (?s\<lparr>resource_threshold := ?t\<rparr>) (snd kn)) (nodes ?s)
             = [(''node-3'', large_node)]"
    by (simp add: booked_coordinator_def meets_threshold_def default_threshold_def
        valid_node_def large_node_def)
  have t: "tasks ?s = [(''task-1'', task_1\<lparr>assigned_nodes := [''node-1''],
                                            LearningTask.status := ''assigned''\<rparr>)]"
    by (simp add: booked_coordinator_def)
  note r = set_resource_threshold_evicts [of ?s ?t]
  from r [THEN conjunct2, THEN conjunct2, THEN conjunct2, THEN conjunct1, THEN mp, OF d]
  have "nodes (set_resource_threshold ?s ?t) = [(''node-3'', large_node)]"
    by (simp only: f)
  moreover from r [THEN conjunct2, THEN conjunct2, THEN conjunct2, THEN conjunct2]
  have "tasks (set_resource_threshold ?s ?t)
          = [(''task-1'', task_1\<lparr>assigned_nodes := [''node-1''],
                                   LearningTask.status := ''assigned''\<rparr>)]"
    by (simp only: t)
  ultimately show ?thesis by (rule conjI)
qed

subsection \<open>Task intake\<close>

lemma suitable_nodes_cong:
  "nodes s = nodes s' \<Longrightarrow> required_resources t = required_resources t' \<Longrightarrow>
   suitable_nodes s t = suitable_nodes s' t'"
  by (simp add: suitable_nodes_def node_suitable_for_task_def)

lemma submit_learning_task_no_candidate:
  assumes "suitable_nodes self task = []"
  shows "snd (submit_learning_task self task)
           = self\<lparr>tasks := AList.update (task_id task) task (tasks self)\<rparr>"
proof -
  let ?s1 = "self\<lparr>tasks := AList.update (task_id task) task (tasks self)\<rparr>"
  have "suitable_nodes ?s1 task = []"
    using assms suitable_nodes_cong [of ?s1 self task task] by simp
  then have "assign_nodes_to_task ?s1 (task_id task) = (False, ?s1)"
    by (simp add: assign_nodes_to_task_def map_of_update_same)
  then show ?thesis by (simp add: submit_learning_task_def)
qed

lemma submit_learning_task_chosen:
  assumes "suitable_nodes self task \<noteq> []"
    and "hd (sort_reverse sort_key_of (suitable_nodes self task)) = (k, n)"
  shows "snd (submit_learning_task self task)
           = self\<lparr>tasks := AList.update (task_id task)
                              (task\<lparr>assigned_nodes := [node_id n],
                                    LearningTask.status := ''assigned''\<rparr>) (tasks self),
                  nodes := AList.update k (n\<lparr>SwarmNode.status := ''busy''\<rparr>) (nodes self)\<rparr>"
proof -
  let ?s1 = "self\<lparr>tasks := AList.update (task_id task) task (tasks self)\<rparr>"
  have c: "suitable_nodes ?s1 task = suitable_nodes self task"
    by (rule suitable_nodes_cong) simp_all
  have t: "map_of (tasks ?s1) (task_id task) = Some task"
    by (simp add: map_of_update_same)
  from assms c have ne: "suitable_nodes ?s1 task \<noteq> []"
    and kn: "hd (sort_reverse sort_key_of (suitable_nodes ?s1 task)) = (k, n)"
    by simp_all
  from assign_nodes_to_task_chosen [OF t ne kn] show ?thesis
    by (simp add: submit_learning_task_def)
qed

lemma assign_nodes_to_task_keys:
  "map fst (tasks (snd (assign_nodes_to_task s tid))) = map fst (tasks s)"
proof (cases "map_of (tasks s) tid")
  case None
  then show ?thesis by (simp add: assign_nodes_to_task_def)
next
  case (Some t)
  then have "tid \<in> fst ` set (tasks s)"
    by (metis map_of_eq_None_iff option.distinct(1))
  with Some show ?thesis
    by (simp add: assign_nodes_to_task_def update_keys split: prod.splits)
qed

lemma length_alist_update:
  "length (AList.update k v al) = (if k \<in> fst ` set al then length al else Suc (length al))"
  by (induction al) auto

lemma assign_nodes_to_task_other:
  "k \<noteq> tid \<Longrightarrow> map_of (tasks (snd (assign_nodes_to_task s tid))) k = map_of (tasks s) k"
  by (simp add: assign_nodes_to_task_def map_of_update_other split: option.splits prod.splits)

text \<open>
  C5, as the code has it. \<open>submit_learning_task\<close> returns the task's ID. It first
  stores the descriptor it was given under that ID, whether or not any node can take
  it, with the status the descriptor carries: \<open>pending\<close> when the caller left the
  default, and any other status as it is, for nothing resets it. It then runs
  \<open>assign_nodes_to_task\<close> once on that ID. If no node is idle and large enough, the
  stored task is the submitted one and the node registry is untouched. The ID is a key
  of the task registry afterwards, the other keys hold what they held, and the registry
  has as many entries as before when the ID was already a key (one more otherwise).
\<close>

theorem submit_learning_task_stores:
  "fst (submit_learning_task self task) = task_id task
   \<and> snd (submit_learning_task self task)
       = snd (assign_nodes_to_task
                (self\<lparr>tasks := AList.update (task_id task) task (tasks self)\<rparr>) (task_id task))
   \<and> map_of (tasks (self\<lparr>tasks := AList.update (task_id task) task (tasks self)\<rparr>))
         (task_id task) = Some task
   \<and> (suitable_nodes self task = [] \<longrightarrow>
        map_of (tasks (snd (submit_learning_task self task))) (task_id task) = Some task
        \<and> nodes (snd (submit_learning_task self task)) = nodes self)
   \<and> task_id task \<in> fst ` set (tasks (snd (submit_learning_task self task)))
   \<and> (\<forall>k. k \<noteq> task_id task \<longrightarrow>
         map_of (tasks (snd (submit_learning_task self task))) k = map_of (tasks self) k)
   \<and> (task_id task \<in> fst ` set (tasks self) \<longrightarrow>
        length (tasks (snd (submit_learning_task self task))) = length (tasks self))
   \<and> (task_id task \<notin> fst ` set (tasks self) \<longrightarrow>
        length (tasks (snd (submit_learning_task self task))) = length (tasks self) + 1)"
proof -
  let ?s1 = "self\<lparr>tasks := AList.update (task_id task) task (tasks self)\<rparr>"
  let ?s2 = "snd (submit_learning_task self task)"
  have ret: "fst (submit_learning_task self task) = task_id task"
    by (simp add: submit_learning_task_def)
  have run: "?s2 = snd (assign_nodes_to_task ?s1 (task_id task))"
    by (simp add: submit_learning_task_def)
  have stored: "map_of (tasks ?s1) (task_id task) = Some task"
    by (simp add: map_of_update_same)
  have none: "suitable_nodes self task = [] \<longrightarrow>
        map_of (tasks ?s2) (task_id task) = Some task \<and> nodes ?s2 = nodes self"
    by (simp add: submit_learning_task_no_candidate map_of_update_same)
  have keys: "map fst (tasks ?s2) = map fst (AList.update (task_id task) task (tasks self))"
    unfolding run using assign_nodes_to_task_keys [of ?s1 "task_id task"] by simp
  have "set (map fst (tasks ?s2)) = insert (task_id task) (fst ` set (tasks self))"
    unfolding keys by (simp add: dom_update)
  then have key: "task_id task \<in> fst ` set (tasks ?s2)" by simp
  have others: "\<forall>k. k \<noteq> task_id task \<longrightarrow> map_of (tasks ?s2) k = map_of (tasks self) k"
    unfolding run by (simp add: assign_nodes_to_task_other map_of_update_other)
  have "length (tasks ?s2) = length (map fst (AList.update (task_id task) task (tasks self)))"
    using keys by (metis length_map)
  then have len: "length (tasks ?s2) = length (AList.update (task_id task) task (tasks self))"
    by simp
  have same: "task_id task \<in> fst ` set (tasks self) \<longrightarrow> length (tasks ?s2) = length (tasks self)"
    unfolding len by (simp add: length_alist_update)
  have more: "task_id task \<notin> fst ` set (tasks self) \<longrightarrow>
        length (tasks ?s2) = length (tasks self) + 1"
    unfolding len by (simp add: length_alist_update)
  from ret run stored none key others same more show ?thesis by (intro conjI)
qed

text \<open>
  Submitting \<open>task_1\<close> again, when it is already stored and \<open>node-1\<close> is busy with it,
  puts the fresh pending descriptor in the place of the assigned one: the registry
  still has one entry and the task is pending.
\<close>

theorem submit_learning_task_stores_witness:
  "fst (submit_learning_task booked_coordinator task_1) = ''task-1''
   \<and> map_of (tasks (snd (submit_learning_task booked_coordinator task_1))) ''task-1'' = Some task_1
   \<and> length (tasks (snd (submit_learning_task booked_coordinator task_1))) = 1
   \<and> LearningTask.status task_1 = ''pending''"
proof -
  note r = submit_learning_task_stores [of booked_coordinator task_1]
  have tid: "task_id task_1 = ''task-1''" by (simp add: task_1_def new_task_def)
  have c: "suitable_nodes booked_coordinator task_1 = []"
    by (simp add: suitable_nodes_def booked_coordinator_def)
  have k: "task_id task_1 \<in> fst ` set (tasks booked_coordinator)"
    by (simp add: booked_coordinator_def tid)
  have l: "length (tasks booked_coordinator) = 1" by (simp add: booked_coordinator_def)
  from r [THEN conjunct1]
  have 1: "fst (submit_learning_task booked_coordinator task_1) = ''task-1''"
    by (simp only: tid)
  from r [THEN conjunct2, THEN conjunct2, THEN conjunct2, THEN conjunct1, THEN mp, OF c,
      THEN conjunct1]
  have 2: "map_of (tasks (snd (submit_learning_task booked_coordinator task_1))) ''task-1''
             = Some task_1"
    by (simp only: tid)
  from r [THEN conjunct2, THEN conjunct2, THEN conjunct2, THEN conjunct2, THEN conjunct2,
      THEN conjunct2, THEN conjunct1, THEN mp, OF k]
  have 3: "length (tasks (snd (submit_learning_task booked_coordinator task_1))) = 1"
    by (simp only: l)
  have 4: "LearningTask.status task_1 = ''pending''" by (simp add: task_1_def new_task_def)
  from 1 2 3 4 show ?thesis by (intro conjI)
qed

text \<open>
  The claim as written has every submitted task stored as \<open>pending\<close>. A descriptor that
  arrives with status \<open>running\<close> is stored as \<open>running\<close>.
\<close>

theorem submit_learning_task_pending_counterexample:
  "map_of (tasks (snd (submit_learning_task test_coordinator
                         (task_1\<lparr>LearningTask.status := ''running''\<rparr>)))) ''task-1''
     = Some (task_1\<lparr>LearningTask.status := ''running''\<rparr>)
   \<and> LearningTask.status (task_1\<lparr>LearningTask.status := ''running''\<rparr>) \<noteq> ''pending''"
  by (simp add: submit_learning_task_def assign_nodes_to_task_def suitable_nodes_def
      fixture_defs)

text \<open>
  C10. Neither the candidate set nor the choice depends on the status of the task, and
  submission stores the status it is given. So a task submitted with any status at
  all (\<open>running\<close>, \<open>completed\<close>, \<open>failed\<close>, ...) keeps that status when no node is idle
  and large enough. When some node is, the submitted task ends up with \<open>assigned_nodes\<close>
  equal to the one-element list of the chosen node's ID, whatever the list held, and
  with status \<open>assigned\<close>; the chosen node, which was idle, is stored as \<open>busy\<close>; and
  the resulting coordinator is the same for every status the task could have carried.
\<close>

theorem submit_learning_task_ignores_status:
  "(\<forall>st. suitable_nodes self (task\<lparr>LearningTask.status := st\<rparr>) = suitable_nodes self task)
   \<and> (suitable_nodes self task = [] \<longrightarrow>
        map_of (tasks (snd (submit_learning_task self task))) (task_id task) = Some task)
   \<and> (suitable_nodes self task \<noteq> [] \<longrightarrow>
        (\<exists>k n. (k, n) \<in> set (nodes self)
           \<and> SwarmNode.status n = ''idle'' \<and> node_suitable_for_task n task
           \<and> map_of (tasks (snd (submit_learning_task self task))) (task_id task)
               = Some (task\<lparr>assigned_nodes := [node_id n], LearningTask.status := ''assigned''\<rparr>)
           \<and> map_of (nodes (snd (submit_learning_task self task))) k
               = Some (n\<lparr>SwarmNode.status := ''busy''\<rparr>)
           \<and> (\<forall>st. snd (submit_learning_task self (task\<lparr>LearningTask.status := st\<rparr>))
                     = snd (submit_learning_task self task))))"
proof -
  have blind: "\<forall>st. suitable_nodes self (task\<lparr>LearningTask.status := st\<rparr>) = suitable_nodes self task"
    by (simp add: suitable_nodes_def node_suitable_for_task_def)
  have none: "suitable_nodes self task = [] \<longrightarrow>
        map_of (tasks (snd (submit_learning_task self task))) (task_id task) = Some task"
    by (simp add: submit_learning_task_no_candidate map_of_update_same)
  have some: "suitable_nodes self task \<noteq> [] \<longrightarrow>
        (\<exists>k n. (k, n) \<in> set (nodes self)
           \<and> SwarmNode.status n = ''idle'' \<and> node_suitable_for_task n task
           \<and> map_of (tasks (snd (submit_learning_task self task))) (task_id task)
               = Some (task\<lparr>assigned_nodes := [node_id n], LearningTask.status := ''assigned''\<rparr>)
           \<and> map_of (nodes (snd (submit_learning_task self task))) k
               = Some (n\<lparr>SwarmNode.status := ''busy''\<rparr>)
           \<and> (\<forall>st. snd (submit_learning_task self (task\<lparr>LearningTask.status := st\<rparr>))
                     = snd (submit_learning_task self task)))"
  proof
    assume ne: "suitable_nodes self task \<noteq> []"
    obtain k n where kn: "hd (sort_reverse sort_key_of (suitable_nodes self task)) = (k, n)"
      by (cases "hd (sort_reverse sort_key_of (suitable_nodes self task))")
    note after = submit_learning_task_chosen [OF ne kn]
    have t: "map_of (tasks (snd (submit_learning_task self task))) (task_id task)
               = Some (task\<lparr>assigned_nodes := [node_id n], LearningTask.status := ''assigned''\<rparr>)"
      unfolding after by (simp add: map_of_update_same)
    have b: "map_of (nodes (snd (submit_learning_task self task))) k
               = Some (n\<lparr>SwarmNode.status := ''busy''\<rparr>)"
      unfolding after by (simp add: map_of_update_same)
    have any: "\<forall>st. snd (submit_learning_task self (task\<lparr>LearningTask.status := st\<rparr>))
                     = snd (submit_learning_task self task)"
    proof
      fix st
      let ?task = "task\<lparr>LearningTask.status := st\<rparr>"
      from blind have eq: "suitable_nodes self ?task = suitable_nodes self task" by simp
      from ne kn have "suitable_nodes self ?task \<noteq> []"
        and "hd (sort_reverse sort_key_of (suitable_nodes self ?task)) = (k, n)"
        unfolding eq by simp_all
      from submit_learning_task_chosen [OF this]
      show "snd (submit_learning_task self ?task) = snd (submit_learning_task self task)"
        unfolding after by simp
    qed
    from chosen_is_candidate [OF ne kn] t b any
    show "\<exists>k n. (k, n) \<in> set (nodes self)
           \<and> SwarmNode.status n = ''idle'' \<and> node_suitable_for_task n task
           \<and> map_of (tasks (snd (submit_learning_task self task))) (task_id task)
               = Some (task\<lparr>assigned_nodes := [node_id n], LearningTask.status := ''assigned''\<rparr>)
           \<and> map_of (nodes (snd (submit_learning_task self task))) k
               = Some (n\<lparr>SwarmNode.status := ''busy''\<rparr>)
           \<and> (\<forall>st. snd (submit_learning_task self (task\<lparr>LearningTask.status := st\<rparr>))
                     = snd (submit_learning_task self task))"
      by (intro exI conjI)
  qed
  from blind none some show ?thesis by (intro conjI)
qed

text \<open>
  A task that arrives as \<open>completed\<close> and already naming \<open>node-9\<close> is handed to the idle
  \<open>node-1\<close>: its list becomes \<open>[node-1]\<close>, its status \<open>assigned\<close>, and \<open>node-1\<close> is busy.
\<close>

theorem submit_learning_task_ignores_status_witness:
  "map_of (tasks (snd (submit_learning_task
              (test_coordinator\<lparr>nodes := [(''node-1'', valid_node)]\<rparr>)
              (task_1\<lparr>assigned_nodes := [''node-9''], LearningTask.status := ''completed''\<rparr>))))
      ''task-1''
     = Some (task_1\<lparr>assigned_nodes := [''node-1''], LearningTask.status := ''assigned''\<rparr>)
   \<and> map_of (nodes (snd (submit_learning_task
              (test_coordinator\<lparr>nodes := [(''node-1'', valid_node)]\<rparr>)
              (task_1\<lparr>assigned_nodes := [''node-9''], LearningTask.status := ''completed''\<rparr>))))
      ''node-1''
     = Some (valid_node\<lparr>SwarmNode.status := ''busy''\<rparr>)"
proof -
  let ?s = "test_coordinator\<lparr>nodes := [(''node-1'', valid_node)]\<rparr>"
  let ?t = "task_1\<lparr>assigned_nodes := [''node-9''], LearningTask.status := ''completed''\<rparr>"
  have c: "suitable_nodes ?s ?t = [(''node-1'', valid_node)]"
    by (simp add: suitable_nodes_def node_suitable_for_task_def fixture_defs)
  then have ne: "suitable_nodes ?s ?t \<noteq> []" by simp
  have tid: "task_id ?t = ''task-1''" by (simp add: task_1_def new_task_def)
  have nid: "node_id valid_node = ''node-1''" by (simp add: valid_node_def)
  from submit_learning_task_ignores_status [of ?s ?t, THEN conjunct2, THEN conjunct2, THEN mp, OF ne]
  obtain k n where mem: "(k, n) \<in> set (nodes ?s)"
    and t: "map_of (tasks (snd (submit_learning_task ?s ?t))) (task_id ?t)
              = Some (?t\<lparr>assigned_nodes := [node_id n], LearningTask.status := ''assigned''\<rparr>)"
    and b: "map_of (nodes (snd (submit_learning_task ?s ?t))) k
              = Some (n\<lparr>SwarmNode.status := ''busy''\<rparr>)"
    by blast
  from mem have kn: "k = ''node-1''" "n = valid_node" by simp_all
  from t have "map_of (tasks (snd (submit_learning_task ?s ?t))) ''task-1''
                 = Some (task_1\<lparr>assigned_nodes := [''node-1''], LearningTask.status := ''assigned''\<rparr>)"
    unfolding kn tid nid by simp
  moreover from b have "map_of (nodes (snd (submit_learning_task ?s ?t))) ''node-1''
                 = Some (valid_node\<lparr>SwarmNode.status := ''busy''\<rparr>)"
    unfolding kn .
  ultimately show ?thesis by (rule conjI)
qed

subsection \<open>Status snapshot\<close>

lemma sum_1_for_length: "sum_1_for p xs = int (length (filter p xs))"
  by (induction xs) (simp_all add: sum_1_for_def)

lemma sum_1_for_values:
  "sum_1_for p (map snd al) = int (length (filter (\<lambda>kv. p (snd kv)) al))"
  by (induction al) (simp_all add: sum_1_for_def)

lemma four_way_count:
  assumes "\<forall>x \<in> set xs. f x \<in> {a, b, c, d}"
    and "distinct [a, b, c, d]"
  shows "length (filter (\<lambda>x. f x = a) xs) + length (filter (\<lambda>x. f x = b) xs)
         + length (filter (\<lambda>x. f x = c) xs) + length (filter (\<lambda>x. f x = d) xs) = length xs"
  using assms by (induction xs) auto

text \<open>
  C7, as the code has it. \<open>get_swarm_status\<close> only reads the coordinator: it is a
  function of the coordinator that returns the snapshot and nothing else. The snapshot
  holds the number of registered nodes; the numbers of nodes whose status is \<open>idle\<close>,
  \<open>busy\<close> and \<open>learning\<close> (there is no entry for \<open>error\<close>); the numbers of tasks whose
  status is \<open>pending\<close>, \<open>running\<close> and \<open>completed\<close>; and the current threshold. If every
  node's status is one of \<open>idle\<close>, \<open>busy\<close>, \<open>learning\<close>, \<open>error\<close>, the three node counts
  together with the number of nodes in status \<open>error\<close> make up \<open>total_nodes\<close>.
\<close>

theorem get_swarm_status_snapshot:
  "total_nodes (get_swarm_status self) = int (length (nodes self))
   \<and> idle_nodes (get_swarm_status self)
       = int (length (filter (\<lambda>kn. SwarmNode.status (snd kn) = ''idle'') (nodes self)))
   \<and> busy_nodes (get_swarm_status self)
       = int (length (filter (\<lambda>kn. SwarmNode.status (snd kn) = ''busy'') (nodes self)))
   \<and> learning_nodes (get_swarm_status self)
       = int (length (filter (\<lambda>kn. SwarmNode.status (snd kn) = ''learning'') (nodes self)))
   \<and> pending_tasks (get_swarm_status self)
       = int (length (filter (\<lambda>kt. LearningTask.status (snd kt) = ''pending'') (tasks self)))
   \<and> running_tasks (get_swarm_status self)
       = int (length (filter (\<lambda>kt. LearningTask.status (snd kt) = ''running'') (tasks self)))
   \<and> completed_tasks (get_swarm_status self)
       = int (length (filter (\<lambda>kt. LearningTask.status (snd kt) = ''completed'') (tasks self)))
   \<and> SwarmStatus.resource_threshold (get_swarm_status self)
       = SwarmCoordinator.resource_threshold self
   \<and> ((\<forall>kn \<in> set (nodes self).
          SwarmNode.status (snd kn) \<in> {''idle'', ''busy'', ''learning'', ''error''}) \<longrightarrow>
        idle_nodes (get_swarm_status self) + busy_nodes (get_swarm_status self)
        + learning_nodes (get_swarm_status self)
        + int (length (filter (\<lambda>kn. SwarmNode.status (snd kn) = ''error'') (nodes self)))
        = total_nodes (get_swarm_status self))"
proof -
  have counts:
    "total_nodes (get_swarm_status self) = int (length (nodes self))"
    "idle_nodes (get_swarm_status self)
       = int (length (filter (\<lambda>kn. SwarmNode.status (snd kn) = ''idle'') (nodes self)))"
    "busy_nodes (get_swarm_status self)
       = int (length (filter (\<lambda>kn. SwarmNode.status (snd kn) = ''busy'') (nodes self)))"
    "learning_nodes (get_swarm_status self)
       = int (length (filter (\<lambda>kn. SwarmNode.status (snd kn) = ''learning'') (nodes self)))"
    "pending_tasks (get_swarm_status self)
       = int (length (filter (\<lambda>kt. LearningTask.status (snd kt) = ''pending'') (tasks self)))"
    "running_tasks (get_swarm_status self)
       = int (length (filter (\<lambda>kt. LearningTask.status (snd kt) = ''running'') (tasks self)))"
    "completed_tasks (get_swarm_status self)
       = int (length (filter (\<lambda>kt. LearningTask.status (snd kt) = ''completed'') (tasks self)))"
    "SwarmStatus.resource_threshold (get_swarm_status self)
       = SwarmCoordinator.resource_threshold self"
    by (simp_all add: get_swarm_status_def sum_1_for_values)
  have total: "(\<forall>kn \<in> set (nodes self).
          SwarmNode.status (snd kn) \<in> {''idle'', ''busy'', ''learning'', ''error''}) \<longrightarrow>
        idle_nodes (get_swarm_status self) + busy_nodes (get_swarm_status self)
        + learning_nodes (get_swarm_status self)
        + int (length (filter (\<lambda>kn. SwarmNode.status (snd kn) = ''error'') (nodes self)))
        = total_nodes (get_swarm_status self)"
  proof
    assume "\<forall>kn \<in> set (nodes self).
          SwarmNode.status (snd kn) \<in> {''idle'', ''busy'', ''learning'', ''error''}"
    moreover have "distinct [''idle'', ''busy'', ''learning'', ''error'']" by simp
    ultimately have
      "length (filter (\<lambda>kn. SwarmNode.status (snd kn) = ''idle'') (nodes self))
       + length (filter (\<lambda>kn. SwarmNode.status (snd kn) = ''busy'') (nodes self))
       + length (filter (\<lambda>kn. SwarmNode.status (snd kn) = ''learning'') (nodes self))
       + length (filter (\<lambda>kn. SwarmNode.status (snd kn) = ''error'') (nodes self))
       = length (nodes self)"
      by (rule four_way_count)
    then show "idle_nodes (get_swarm_status self) + busy_nodes (get_swarm_status self)
        + learning_nodes (get_swarm_status self)
        + int (length (filter (\<lambda>kn. SwarmNode.status (snd kn) = ''error'') (nodes self)))
        = total_nodes (get_swarm_status self)"
      unfolding counts by linarith
  qed
  from counts total show ?thesis by (intro conjI)
qed

text \<open>
  With one idle node, one busy node and one node in error the snapshot reports three
  nodes, one of them idle and one busy, and the node in error accounts for the third.
\<close>

theorem get_swarm_status_snapshot_witness:
  "total_nodes (get_swarm_status
      (booked_coordinator\<lparr>nodes := nodes booked_coordinator
          @ [(''node-3'', large_node), (''node-4'', large_node\<lparr>node_id := ''node-4'', SwarmNode.status := ''error''\<rparr>)]\<rparr>))
     = 3
   \<and> idle_nodes (get_swarm_status
      (booked_coordinator\<lparr>nodes := nodes booked_coordinator
          @ [(''node-3'', large_node), (''node-4'', large_node\<lparr>node_id := ''node-4'', SwarmNode.status := ''error''\<rparr>)]\<rparr>))
     + busy_nodes (get_swarm_status
      (booked_coordinator\<lparr>nodes := nodes booked_coordinator
          @ [(''node-3'', large_node), (''node-4'', large_node\<lparr>node_id := ''node-4'', SwarmNode.status := ''error''\<rparr>)]\<rparr>))
     + learning_nodes (get_swarm_status
      (booked_coordinator\<lparr>nodes := nodes booked_coordinator
          @ [(''node-3'', large_node), (''node-4'', large_node\<lparr>node_id := ''node-4'', SwarmNode.status := ''error''\<rparr>)]\<rparr>))
     + 1 = 3"
proof -
  let ?s = "booked_coordinator\<lparr>nodes := nodes booked_coordinator
          @ [(''node-3'', large_node), (''node-4'', large_node\<lparr>node_id := ''node-4'', SwarmNode.status := ''error''\<rparr>)]\<rparr>"
  note r = get_swarm_status_snapshot [of ?s]
  have all: "\<forall>kn \<in> set (nodes ?s).
          SwarmNode.status (snd kn) \<in> {''idle'', ''busy'', ''learning'', ''error''}"
    by (simp add: booked_coordinator_def valid_node_def large_node_def)
  have len: "int (length (nodes ?s)) = 3" by (simp add: booked_coordinator_def)
  have err: "int (length (filter (\<lambda>kn. SwarmNode.status (snd kn) = ''error'') (nodes ?s))) = 1"
    by (simp add: booked_coordinator_def valid_node_def large_node_def)
  from r [THEN conjunct1] have total: "total_nodes (get_swarm_status ?s) = 3"
    by (simp only: len)
  from r [THEN conjunct2, THEN conjunct2, THEN conjunct2, THEN conjunct2, THEN conjunct2,
      THEN conjunct2, THEN conjunct2, THEN conjunct2, THEN mp, OF all]
  have "idle_nodes (get_swarm_status ?s) + busy_nodes (get_swarm_status ?s)
        + learning_nodes (get_swarm_status ?s) + 1 = 3"
    by (simp only: err total)
  with total show ?thesis by (rule conjI)
qed

text \<open>
  The claim as written has a count for each node status, and the counts add up to
  \<open>total_nodes\<close>. A node can be registered with status \<open>error\<close> (admission looks at
  capacity only); the snapshot then reports one node and zero idle, busy and learning
  nodes, and has no further node count.
\<close>

theorem get_swarm_status_sum_counterexample:
  "nodes (snd (register_node test_coordinator (valid_node\<lparr>SwarmNode.status := ''error''\<rparr>)))
     = [(''node-1'', valid_node\<lparr>SwarmNode.status := ''error''\<rparr>)]
   \<and> SwarmNode.status (valid_node\<lparr>SwarmNode.status := ''error''\<rparr>) = ''error''
   \<and> idle_nodes (get_swarm_status
        (snd (register_node test_coordinator (valid_node\<lparr>SwarmNode.status := ''error''\<rparr>))))
     + busy_nodes (get_swarm_status
        (snd (register_node test_coordinator (valid_node\<lparr>SwarmNode.status := ''error''\<rparr>))))
     + learning_nodes (get_swarm_status
        (snd (register_node test_coordinator (valid_node\<lparr>SwarmNode.status := ''error''\<rparr>))))
     = 0
   \<and> total_nodes (get_swarm_status
        (snd (register_node test_coordinator (valid_node\<lparr>SwarmNode.status := ''error''\<rparr>))))
     = 1"
  by (simp add: register_node_def meets_threshold_def get_swarm_status_def sum_1_for_def
      fixture_defs)

subsection \<open>Booking\<close>




















subsection \<open>The supervising loop\<close>






end
